theory Spec2Isabelle
  imports Main
begin

section \<open>Default implementation of SQL comparison operations\<close>

text \<open>
  A shallow embedding of \<^verbatim>\<open>lib/sqlalchemy/sql/default_comparator.py\<close>: the handler
  functions that build expression nodes for an operator applied to an anchor expression,
  and the table \<^verbatim>\<open>operator_lookup\<close> that routes an operator name to its handler.
\<close>

subsection \<open>Operators\<close>

text \<open>
  The operator functions of module \<^verbatim>\<open>operators\<close> that the file names. A constructor
  carries the source's name; the names Isabelle does not admit get the suffix
  \<^verbatim>\<open>_op\<close>: \<^verbatim>\<open>and_\<close>, \<^verbatim>\<open>or_\<close>, \<^verbatim>\<open>is_\<close> (a trailing underscore), \<^verbatim>\<open>div\<close>,
  \<^verbatim>\<open>mod\<close> (HOL syntax), \<^verbatim>\<open>inv\<close>, \<^verbatim>\<open>eq\<close> (HOL constants). A \<^verbatim>\<open>custom_op\<close> object
  carries its operator string. Python compares operators by identity, which is the
  equality of this datatype.
\<close>

datatype operator =
    and_op | or_op | inv_op | add | mul | sub | div_op | mod_op | truediv | floordiv
  | custom_op string | json_path_getitem_op | json_getitem_op | concat_op
  | any_op | all_op | lt | le | ne | gt | ge | eq_op
  | is_distinct_from | is_not_distinct_from
  | like_op | ilike_op | not_like_op | not_ilike_op
  | contains_op | startswith_op | endswith_op
  | not_contains_op | not_startswith_op | not_endswith_op
  | desc_op | asc_op | nulls_first_op | nulls_last_op
  | in_op | not_in_op | is_op | is_not | collate
  | match_op | not_match_op | distinct_op | between_op | not_between_op
  | neg | getitem | lshift | rshift | contains
  | regexp_match_op | not_regexp_match_op | regexp_replace_op

subsection \<open>Values, types and expression nodes\<close>

text \<open>
  The classes that an \<^verbatim>\<open>isinstance\<close> test of the file can name: the Python classes a
  caller may list in \<^verbatim>\<open>_python_is_types\<close>, and the three literal sentinel node classes.
\<close>

datatype pyclass =
  NoneType | bool_class | int_class | str_class | Null_class | True_class | False_class

text \<open>Result types: the two constants of \<^verbatim>\<open>type_api\<close> the file uses, and any other.\<close>

datatype sqltype = BOOLEANTYPE | MATCHTYPE | TypeEngine string

text \<open>
  A raw operand is a Python value: \<^verbatim>\<open>None\<close>, a plain boolean, another literal, or an
  expression node. Of the nodes, the file constructs \<^verbatim>\<open>BinaryExpression\<close> and
  \<^verbatim>\<open>ClauseList\<close> and tests for \<^verbatim>\<open>Null\<close>, \<^verbatim>\<open>True_\<close> and \<^verbatim>\<open>False_\<close>; a node holds the
  arguments its constructor was called with, and an argument that was not passed is
  \<open>None\<close>. \<^verbatim>\<open>ColumnClause\<close> and \<^verbatim>\<open>BindParameter\<close> (a bound literal, with the operator it
  is compared under) stand for the nodes built elsewhere.
\<close>

datatype pyval =
    PyNone | PyBool bool | PyInt int | PyStr string | Element node
and node =
    Null | True_node | False_node
  | ColumnClause string
  | BindParameter pyval "operator option"
  | BinaryExpression (left: node) (right: node) (operator: operator)
      (node_type: "sqltype option") (negate: "operator option")
      (modifiers: "(string \<times> pyval) list option")
  | ClauseList (clauses: "node list") (list_operator: operator) (group: bool)
      (group_contents: bool)

datatype role = ConstExprRole | BinaryElementRole | InElementRole

datatype error =
    ArgumentError string | NotImplementedError string | TypeError string
  | CoercionError string

text \<open>
  \<^verbatim>\<open>coercions.expect(role, element, expr=..., operator=...)\<close> is the Coercion Engine, an
  external collaborator: the handlers take it as a parameter. It returns a node or
  raises; \<open>None\<close> stands for a keyword the call does not pass.
\<close>

type_synonym coercion =
  "role \<Rightarrow> pyval \<Rightarrow> node option \<Rightarrow> operator option \<Rightarrow> error + node"

text \<open>\<^verbatim>\<open>isinstance(obj, classes)\<close> for a tuple of classes; \<^verbatim>\<open>bool\<close> is a subclass of \<^verbatim>\<open>int\<close>.\<close>

fun instance_of :: "pyval \<Rightarrow> pyclass \<Rightarrow> bool" where
  "instance_of PyNone c = (c = NoneType)"
| "instance_of (PyBool b) c = (c = bool_class \<or> c = int_class)"
| "instance_of (PyInt i) c = (c = int_class)"
| "instance_of (PyStr s) c = (c = str_class)"
| "instance_of (Element Null) c = (c = Null_class)"
| "instance_of (Element True_node) c = (c = True_class)"
| "instance_of (Element False_node) c = (c = False_class)"
| "instance_of (Element n) c = False"

definition isinstance :: "pyval \<Rightarrow> pyclass list \<Rightarrow> bool" where
  "isinstance obj classes = list_ex (instance_of obj) classes"

subsection \<open>The boolean comparison handler\<close>

text \<open>
  \<^verbatim>\<open>_boolean_compare(expr, op, obj, *, negate_op, reverse, _python_is_types,
  _any_all_expr, result_type, **kwargs)\<close>, lines 46 to 141. The branches are in the
  source's order; each \<^verbatim>\<open>coercions.expect\<close> call may raise, and the error propagates.
\<close>

definition only_with_none_message :: string where
  "only_with_none_message =
     ''Only '' @ [CHR 0x27] @ ''='' @ [CHR 0x27] @ '', '' @ [CHR 0x27] @ ''!='' @ [CHR 0x27]
     @ '', '' @ [CHR 0x27] @ ''is_()'' @ [CHR 0x27] @ '', '' @ [CHR 0x27] @ ''is_not()''
     @ [CHR 0x27] @ '', '' @ [CHR 0x27] @ ''is_distinct_from()'' @ [CHR 0x27] @ '', ''
     @ [CHR 0x27] @ ''is_not_distinct_from()'' @ [CHR 0x27]
     @ '' operators can be used with None/True/False''"

definition boolean_compare ::
  "coercion \<Rightarrow> node \<Rightarrow> operator \<Rightarrow> pyval \<Rightarrow> operator option \<Rightarrow> bool \<Rightarrow> pyclass list
     \<Rightarrow> bool \<Rightarrow> sqltype option \<Rightarrow> (string \<times> pyval) list \<Rightarrow> error + node" where
  "boolean_compare expect expr op obj negate_op reverse python_is_types any_all_expr
      result_type kwargs =
    (let result_type = (case result_type of None \<Rightarrow> BOOLEANTYPE | Some t \<Rightarrow> t);
         finish = (\<lambda>obj.
           if reverse
           then Inr (BinaryExpression obj expr op (Some result_type) negate_op (Some kwargs))
           else Inr (BinaryExpression expr obj op (Some result_type) negate_op (Some kwargs)))
     in
     if isinstance obj (python_is_types @ [Null_class, True_class, False_class]) then
       if (op = eq_op \<or> op = ne) \<and> isinstance obj [bool_class, True_class, False_class] then
         (case expect ConstExprRole obj None None of
            Inl e \<Rightarrow> Inl e
          | Inr c \<Rightarrow> Inr (BinaryExpression expr c op (Some result_type) negate_op (Some kwargs)))
       else if op = is_distinct_from \<or> op = is_not_distinct_from then
         (case expect ConstExprRole obj None None of
            Inl e \<Rightarrow> Inl e
          | Inr c \<Rightarrow> Inr (BinaryExpression expr c op (Some result_type) negate_op (Some kwargs)))
       else if any_all_expr then
         (case expect ConstExprRole obj (Some expr) (Some op) of
            Inl e \<Rightarrow> Inl e
          | Inr c \<Rightarrow> finish c)
       else if op = eq_op \<or> op = is_op then
         (case expect ConstExprRole obj None None of
            Inl e \<Rightarrow> Inl e
          | Inr c \<Rightarrow> Inr (BinaryExpression expr c is_op (Some result_type) (Some is_not) None))
       else if op = ne \<or> op = is_not then
         (case expect ConstExprRole obj None None of
            Inl e \<Rightarrow> Inl e
          | Inr c \<Rightarrow> Inr (BinaryExpression expr c is_not (Some result_type) (Some is_op) None))
       else Inl (ArgumentError only_with_none_message)
     else
       (case expect BinaryElementRole obj (Some expr) (Some op) of
          Inl e \<Rightarrow> Inl e
        | Inr c \<Rightarrow> finish c))"


text \<open>
  A small Coercion Engine for running the handlers on concrete inputs: an expression node
  passes through, the constant role maps \<^verbatim>\<open>None\<close>, \<^verbatim>\<open>True\<close> and \<^verbatim>\<open>False\<close> to their
  sentinel nodes and refuses every other literal, and the other roles bind a literal as a
  parameter that records the operator it is compared under.
\<close>

fun literal_coercion :: coercion where
  "literal_coercion r (Element n) e opr = Inr n"
| "literal_coercion ConstExprRole PyNone e opr = Inr Null"
| "literal_coercion ConstExprRole (PyBool b) e opr = Inr (if b then True_node else False_node)"
| "literal_coercion ConstExprRole v e opr = Inl (CoercionError ''constant expected'')"
| "literal_coercion r v e opr = Inr (BindParameter v opr)"

subsection \<open>Keyword arguments of a call of the boolean comparison handler\<close>

text \<open>
  The handlers below call \<^verbatim>\<open>_boolean_compare(..., name=value, **kw)\<close>. Python binds
  each key of \<^verbatim>\<open>kw\<close> that is a parameter name of \<^verbatim>\<open>_boolean_compare\<close> to that
  parameter, collects the other keys in \<^verbatim>\<open>**kwargs\<close> after the extra keywords the call
  writes out, gives a parameter that nothing binds its default of line 51 to 57, and
  raises \<^verbatim>\<open>TypeError\<close> when a keyword is given twice. In a set of keywords, \<open>None\<close> is
  a key that is absent.
\<close>

record keyword_args =
  kw_negate_op :: "operator option option"
  kw_reverse :: "bool option"
  kw_python_is_types :: "pyclass list option"
  kw_any_all_expr :: "bool option"
  kw_result_type :: "sqltype option option"
  kw_rest :: "(string \<times> pyval) list"

definition no_keywords :: keyword_args where
  "no_keywords =
     \<lparr>kw_negate_op = None, kw_reverse = None, kw_python_is_types = None,
      kw_any_all_expr = None, kw_result_type = None, kw_rest = []\<rparr>"

definition given_twice :: "keyword_args \<Rightarrow> keyword_args \<Rightarrow> bool" where
  "given_twice written kw =
     ((kw_negate_op written \<noteq> None \<and> kw_negate_op kw \<noteq> None)
      \<or> (kw_reverse written \<noteq> None \<and> kw_reverse kw \<noteq> None)
      \<or> (kw_python_is_types written \<noteq> None \<and> kw_python_is_types kw \<noteq> None)
      \<or> (kw_any_all_expr written \<noteq> None \<and> kw_any_all_expr kw \<noteq> None)
      \<or> (kw_result_type written \<noteq> None \<and> kw_result_type kw \<noteq> None)
      \<or> list_ex (\<lambda>k. k \<in> set (map fst (kw_rest kw))) (map fst (kw_rest written)))"

definition bound :: "'a option \<Rightarrow> 'a option \<Rightarrow> 'a \<Rightarrow> 'a" where
  "bound written passed by_default =
     (case written of
        Some v \<Rightarrow> v
      | None \<Rightarrow> (case passed of Some v \<Rightarrow> v | None \<Rightarrow> by_default))"

definition boolean_compare_call ::
  "coercion \<Rightarrow> node \<Rightarrow> operator \<Rightarrow> pyval \<Rightarrow> keyword_args \<Rightarrow> keyword_args \<Rightarrow> error + node" where
  "boolean_compare_call expect expr op obj written kw =
     (if given_twice written kw
      then Inl (TypeError ''_boolean_compare() got multiple values for keyword argument'')
      else boolean_compare expect expr op obj
        (bound (kw_negate_op written) (kw_negate_op kw) None)
        (bound (kw_reverse written) (kw_reverse kw) False)
        (bound (kw_python_is_types written) (kw_python_is_types kw) [NoneType, bool_class])
        (bound (kw_any_all_expr written) (kw_any_all_expr kw) False)
        (bound (kw_result_type written) (kw_result_type kw) None)
        (kw_rest written @ kw_rest kw))"

subsection \<open>The generic binary operation handler\<close>

text \<open>
  \<^verbatim>\<open>_binary_operate(expr, op, obj, *, reverse, result_type, **kw)\<close>, lines 156 to 182.
  \<^verbatim>\<open>left.comparator._adapt_expression(op, right.comparator)\<close> is the Type Adaptation Hook
  of the left node's comparator, external and pure: the handler takes it as a parameter,
  and returns, beside its result, the hook calls it made, in order.
\<close>

datatype comparator = Comparator node

datatype hook_call = Adapt_expression comparator operator comparator

type_synonym adaptation = "comparator \<Rightarrow> operator \<Rightarrow> comparator \<Rightarrow> operator \<times> sqltype"

definition binary_operate ::
  "coercion \<Rightarrow> adaptation \<Rightarrow> node \<Rightarrow> operator \<Rightarrow> pyval \<Rightarrow> bool \<Rightarrow> sqltype option
     \<Rightarrow> (string \<times> pyval) list \<Rightarrow> (error + node) \<times> hook_call list" where
  "binary_operate expect adapt_expression expr op obj reverse result_type kw =
     (case expect BinaryElementRole obj (Some expr) (Some op) of
        Inl e \<Rightarrow> (Inl e, [])
      | Inr coerced_obj \<Rightarrow>
          (let (left, right) = (if reverse then (coerced_obj, expr) else (expr, coerced_obj))
           in case result_type of
                None \<Rightarrow>
                  (let call = Adapt_expression (Comparator left) op (Comparator right);
                       (op, result_type) =
                         adapt_expression (Comparator left) op (Comparator right)
                   in (Inr (BinaryExpression left right op (Some result_type) None (Some kw)),
                       [call]))
              | Some t \<Rightarrow>
                  (Inr (BinaryExpression left right op (Some t) None (Some kw)), [])))"

subsection \<open>Set membership, match, range and regular expression handlers\<close>

text \<open>
  \<^verbatim>\<open>_in_impl(expr, op, seq_or_selectable, negate_op, **kw)\<close>, lines 198 to 207. The
  \<^verbatim>\<open>_annotations\<close> of the coerced operand are an attribute of a node built elsewhere:
  the handler takes the attribute as a parameter. An \<^verbatim>\<open>in_ops\<close> annotation is a pair of
  operators.
\<close>

type_synonym annotations = "node \<Rightarrow> string \<Rightarrow> (operator \<times> operator) option"

definition in_impl ::
  "coercion \<Rightarrow> annotations \<Rightarrow> node \<Rightarrow> operator \<Rightarrow> pyval \<Rightarrow> operator \<Rightarrow> keyword_args
     \<Rightarrow> error + node" where
  "in_impl expect annotations expr op seq_or_selectable negate_op kw =
     (case expect InElementRole seq_or_selectable (Some expr) (Some op) of
        Inl e \<Rightarrow> Inl e
      | Inr seq_or_selectable \<Rightarrow>
          (let (op, negate_op) =
                 (case annotations seq_or_selectable ''in_ops'' of
                    Some in_ops \<Rightarrow> in_ops
                  | None \<Rightarrow> (op, negate_op))
           in boolean_compare_call expect expr op (Element seq_or_selectable)
                (no_keywords\<lparr>kw_negate_op := Some (Some negate_op)\<rparr>) kw))"


text \<open>
  \<^verbatim>\<open>_between_impl(expr, op, cleft, cright, **kw)\<close>, lines 269 to 295. The lower bound is
  coerced before the upper one; the Binary node gets no result type.
\<close>

definition between_impl ::
  "coercion \<Rightarrow> node \<Rightarrow> operator \<Rightarrow> pyval \<Rightarrow> pyval \<Rightarrow> (string \<times> pyval) list
     \<Rightarrow> error + node" where
  "between_impl expect expr op cleft cright kw =
     (case expect BinaryElementRole cleft (Some expr) (Some and_op) of
        Inl e \<Rightarrow> Inl e
      | Inr lower \<Rightarrow>
          (case expect BinaryElementRole cright (Some expr) (Some and_op) of
             Inl e \<Rightarrow> Inl e
           | Inr upper \<Rightarrow>
               Inr (BinaryExpression expr (ClauseList [lower, upper] and_op False False) op
                 None (Some (if op = between_op then not_between_op else between_op))
                 (Some kw))))"


subsection \<open>The operator catalog\<close>








section \<open>Properties\<close>

text \<open>
  C1. The operand is a bare NULL sentinel (a \<^verbatim>\<open>Null\<close> node, or Python \<^verbatim>\<open>None\<close> with
  \<^verbatim>\<open>NoneType\<close> among the handler's \<^verbatim>\<open>_python_is_types\<close>, as in its default), the
  quantified flag is not set, and the Coercion Engine returns the literal \<open>c\<close>. Then
  with operator \<^verbatim>\<open>eq\<close> or \<^verbatim>\<open>is_\<close> the handler returns the Binary node of the anchor and
  \<open>c\<close> with operator IS and negation IS NOT, and with \<^verbatim>\<open>ne\<close> or \<^verbatim>\<open>is_not\<close> the one
  with operator IS NOT and negation IS. (A distinct-from operator is neither.)
\<close>

theorem boolean_compare_null_is:
  assumes "obj = Element Null \<or> (obj = PyNone \<and> NoneType \<in> set python_is_types)"
    and "expect ConstExprRole obj None None = Inr c"
  shows "(op = eq_op \<or> op = is_op \<longrightarrow>
            boolean_compare expect expr op obj negate_op reverse python_is_types False
                result_type kwargs
              = Inr (BinaryExpression expr c is_op
                  (Some (case result_type of None \<Rightarrow> BOOLEANTYPE | Some t \<Rightarrow> t))
                  (Some is_not) None))
       \<and> (op = ne \<or> op = is_not \<longrightarrow>
            boolean_compare expect expr op obj negate_op reverse python_is_types False
                result_type kwargs
              = Inr (BinaryExpression expr c is_not
                  (Some (case result_type of None \<Rightarrow> BOOLEANTYPE | Some t \<Rightarrow> t))
                  (Some is_op) None))"
  using assms
  by (auto simp add: boolean_compare_def isinstance_def list_ex_iff)

theorem boolean_compare_null_is_witness:
  "boolean_compare literal_coercion (ColumnClause ''x'') eq_op PyNone (Some ne) False
       [NoneType, bool_class] False None []
     = Inr (BinaryExpression (ColumnClause ''x'') Null is_op (Some BOOLEANTYPE) (Some is_not) None)
   \<and> boolean_compare literal_coercion (ColumnClause ''x'') ne (Element Null) (Some eq_op) False
       [NoneType, bool_class] False None []
     = Inr (BinaryExpression (ColumnClause ''x'') Null is_not (Some BOOLEANTYPE) (Some is_op) None)"
  using boolean_compare_null_is [of PyNone "[NoneType, bool_class]" literal_coercion Null eq_op
      "ColumnClause ''x''" "Some ne" False None "[]"]
    boolean_compare_null_is [of "Element Null" "[NoneType, bool_class]" literal_coercion Null ne
      "ColumnClause ''x''" "Some eq_op" False None "[]"]
  by simp

text \<open>
  C2. The operand passes the handler's sentinel test and the Coercion Engine returns the
  literal \<open>c\<close>. If the operator is \<^verbatim>\<open>eq\<close> or \<^verbatim>\<open>ne\<close> and the operand is a plain
  boolean or a \<^verbatim>\<open>True_\<close> or \<^verbatim>\<open>False_\<close> node, or if the operator is
  \<^verbatim>\<open>is_distinct_from\<close> or \<^verbatim>\<open>is_not_distinct_from\<close> (against any sentinel), the handler
  returns the Binary node of the anchor and \<open>c\<close> with the given operator and the
  supplied negation operator: nothing is rewritten to IS or IS NOT, whatever the
  \<^verbatim>\<open>reverse\<close> and quantified flags are.
\<close>

theorem boolean_compare_literal_direct:
  assumes "isinstance obj (python_is_types @ [Null_class, True_class, False_class])"
    and "((op = eq_op \<or> op = ne) \<and> isinstance obj [bool_class, True_class, False_class])
         \<or> op = is_distinct_from \<or> op = is_not_distinct_from"
    and "expect ConstExprRole obj None None = Inr c"
  shows "boolean_compare expect expr op obj negate_op reverse python_is_types any_all_expr
             result_type kwargs
           = Inr (BinaryExpression expr c op
               (Some (case result_type of None \<Rightarrow> BOOLEANTYPE | Some t \<Rightarrow> t))
               negate_op (Some kwargs))"
  using assms
  by (auto simp add: boolean_compare_def)

theorem boolean_compare_literal_direct_witness:
  "boolean_compare literal_coercion (ColumnClause ''x'') eq_op (PyBool True) (Some ne) False
       [NoneType, bool_class] False None []
     = Inr (BinaryExpression (ColumnClause ''x'') True_node eq_op (Some BOOLEANTYPE) (Some ne)
         (Some []))
   \<and> boolean_compare literal_coercion (ColumnClause ''x'') is_distinct_from PyNone
       (Some is_not_distinct_from) False [NoneType, bool_class] False None []
     = Inr (BinaryExpression (ColumnClause ''x'') Null is_distinct_from (Some BOOLEANTYPE)
         (Some is_not_distinct_from) (Some []))"
  using boolean_compare_literal_direct [of "PyBool True" "[NoneType, bool_class]" eq_op
      literal_coercion True_node "ColumnClause ''x''" "Some ne" False False None "[]"]
    boolean_compare_literal_direct [of PyNone "[NoneType, bool_class]" is_distinct_from
      literal_coercion Null "ColumnClause ''x''" "Some is_not_distinct_from" False False None "[]"]
  by (simp add: isinstance_def)

text \<open>
  C3. The operand passes the handler's sentinel test (a NULL or boolean literal), the
  quantified flag is not set, and the operator is none of \<^verbatim>\<open>eq\<close>, \<^verbatim>\<open>ne\<close>, \<^verbatim>\<open>is_\<close>,
  \<^verbatim>\<open>is_not\<close>, \<^verbatim>\<open>is_distinct_from\<close>, \<^verbatim>\<open>is_not_distinct_from\<close>. Then the handler raises
  its own argument error and returns no node, whatever the Coercion Engine would do: the
  error is not one the engine raised.
\<close>

theorem boolean_compare_argument_error:
  assumes "isinstance obj (python_is_types @ [Null_class, True_class, False_class])"
    and "op \<notin> {eq_op, ne, is_op, is_not, is_distinct_from, is_not_distinct_from}"
  shows "boolean_compare expect expr op obj negate_op reverse python_is_types False
             result_type kwargs
           = Inl (ArgumentError only_with_none_message)"
  using assms
  by (simp add: boolean_compare_def)

theorem boolean_compare_argument_error_witness:
  "boolean_compare (\<lambda>r v e opr. Inl (CoercionError ''refused'')) (ColumnClause ''x'') add
       PyNone None False [NoneType, bool_class] False None []
     = Inl (ArgumentError only_with_none_message)
   \<and> boolean_compare literal_coercion (ColumnClause ''x'') lt (Element True_node) (Some ge)
       True [NoneType, bool_class] False None []
     = Inl (ArgumentError only_with_none_message)"
  using boolean_compare_argument_error [of PyNone "[NoneType, bool_class]" add
      "\<lambda>r v e opr. Inl (CoercionError ''refused'')" "ColumnClause ''x''" None False None "[]"]
    boolean_compare_argument_error [of "Element True_node" "[NoneType, bool_class]" lt
      literal_coercion "ColumnClause ''x''" "Some ge" True None "[]"]
  by (simp add: isinstance_def)





text \<open>
  C5. When the Coercion Engine, asked for a binary operand against the anchor with AND as
  the contextual operator, returns \<open>lower\<close> for the first bound and \<open>upper\<close> for the
  second, the range handler returns the Binary node whose left operand is the anchor,
  whose right operand is the two-element List of \<open>lower\<close> and \<open>upper\<close> joined by AND
  with \<^verbatim>\<open>group\<close> and \<^verbatim>\<open>group_contents\<close> both false, whose operator is the given one and
  whose negation is \<^verbatim>\<open>not_between_op\<close> for \<^verbatim>\<open>between_op\<close> and \<^verbatim>\<open>between_op\<close> for
  \<^verbatim>\<open>not_between_op\<close>.
\<close>

theorem between_impl_node:
  assumes "expect BinaryElementRole cleft (Some expr) (Some and_op) = Inr lower"
    and "expect BinaryElementRole cright (Some expr) (Some and_op) = Inr upper"
  shows "between_impl expect expr op cleft cright kw
           = Inr (BinaryExpression expr (ClauseList [lower, upper] and_op False False) op None
               (Some (if op = between_op then not_between_op else between_op)) (Some kw))"
  using assms
  by (simp add: between_impl_def)

theorem between_impl_node_witness:
  "between_impl literal_coercion (ColumnClause ''x'') between_op (PyInt 1) (PyInt 10) []
     = Inr (BinaryExpression (ColumnClause ''x'')
         (ClauseList [BindParameter (PyInt 1) (Some and_op), BindParameter (PyInt 10) (Some and_op)]
            and_op False False)
         between_op None (Some not_between_op) (Some []))
   \<and> between_impl literal_coercion (ColumnClause ''x'') not_between_op (PyInt 1) (PyInt 10) []
     = Inr (BinaryExpression (ColumnClause ''x'')
         (ClauseList [BindParameter (PyInt 1) (Some and_op), BindParameter (PyInt 10) (Some and_op)]
            and_op False False)
         not_between_op None (Some between_op) (Some []))"
  using between_impl_node [of literal_coercion "PyInt 1" "ColumnClause ''x''"
      "BindParameter (PyInt 1) (Some and_op)" "PyInt 10" "BindParameter (PyInt 10) (Some and_op)"
      between_op "[]"]
    between_impl_node [of literal_coercion "PyInt 1" "ColumnClause ''x''"
      "BindParameter (PyInt 1) (Some and_op)" "PyInt 10" "BindParameter (PyInt 10) (Some and_op)"
      not_between_op "[]"]
  by simp

text \<open>
  C6. The Coercion Engine returns \<open>coerced\<close> for the operand; the left node is the
  coerced operand when \<^verbatim>\<open>reverse\<close> is requested and the anchor otherwise, the right node
  the other one. With no result type supplied, the generic binary handler calls the
  adaptation hook exactly once, on the left node's comparator with the operator and the
  right node's comparator, and builds the Binary node with the operator and the type the
  hook returned. With a result type supplied it calls no hook, and builds the node with
  the given operator and that type.
\<close>

theorem binary_operate_adaptation:
  assumes "expect BinaryElementRole obj (Some expr) (Some op) = Inr coerced"
    and "left_node = (if reverse then coerced else expr)"
    and "right_node = (if reverse then expr else coerced)"
    and "adapted = adapt_expression (Comparator left_node) op (Comparator right_node)"
  shows "(result_type = None \<longrightarrow>
            binary_operate expect adapt_expression expr op obj reverse result_type kw
              = (Inr (BinaryExpression left_node right_node (fst adapted) (Some (snd adapted))
                    None (Some kw)),
                 [Adapt_expression (Comparator left_node) op (Comparator right_node)]))
       \<and> (\<forall>t. result_type = Some t \<longrightarrow>
            binary_operate expect adapt_expression expr op obj reverse result_type kw
              = (Inr (BinaryExpression left_node right_node op (Some t) None (Some kw)), []))"
  using assms
  by (auto simp add: binary_operate_def split: prod.splits)

theorem binary_operate_adaptation_witness:
  "binary_operate literal_coercion
       (\<lambda>l opr r. (if opr = add then concat_op else opr, TypeEngine ''String''))
       (ColumnClause ''x'') add (PyStr ''a'') True None []
     = (Inr (BinaryExpression (BindParameter (PyStr ''a'') (Some add)) (ColumnClause ''x'')
           concat_op (Some (TypeEngine ''String'')) None (Some [])),
        [Adapt_expression (Comparator (BindParameter (PyStr ''a'') (Some add))) add
           (Comparator (ColumnClause ''x''))])
   \<and> binary_operate literal_coercion
       (\<lambda>l opr r. (if opr = add then concat_op else opr, TypeEngine ''String''))
       (ColumnClause ''x'') add (PyStr ''a'') False (Some (TypeEngine ''Integer'')) []
     = (Inr (BinaryExpression (ColumnClause ''x'') (BindParameter (PyStr ''a'') (Some add))
           add (Some (TypeEngine ''Integer'')) None (Some [])),
        [])"
  using binary_operate_adaptation [of literal_coercion "PyStr ''a''" "ColumnClause ''x''" add
      "BindParameter (PyStr ''a'') (Some add)" "BindParameter (PyStr ''a'') (Some add)" True
      "ColumnClause ''x''" "(concat_op, TypeEngine ''String'')"
      "\<lambda>l opr r. (if opr = add then concat_op else opr, TypeEngine ''String'')" None "[]"]
    binary_operate_adaptation [of literal_coercion "PyStr ''a''" "ColumnClause ''x''" add
      "BindParameter (PyStr ''a'') (Some add)" "ColumnClause ''x''" False
      "BindParameter (PyStr ''a'') (Some add)" "(concat_op, TypeEngine ''String'')"
      "\<lambda>l opr r. (if opr = add then concat_op else opr, TypeEngine ''String'')"
      "Some (TypeEngine ''Integer'')" "[]"]
  by simp

text \<open>
  C7. The set membership handler coerces the candidate operand under the IN-element role
  (against the anchor and the given operator). When the engine returns \<open>coerced\<close>, the
  chosen pair is the \<^verbatim>\<open>in_ops\<close> annotation of \<open>coerced\<close> if it has one and the given
  operator with the catalog's negation operator otherwise, and the handler's result is
  that of the boolean comparison handler called with the anchor, the chosen operator,
  \<open>coerced\<close> as operand, the chosen negation operator, and the caller's other keywords
  (which cannot hold \<^verbatim>\<open>negate_op\<close>: it is a parameter of the handler itself).
\<close>

theorem in_impl_delegates:
  assumes "expect InElementRole seq_or_selectable (Some expr) (Some op) = Inr coerced"
    and "kw_negate_op kw = None"
    and "chosen = (case annotations coerced ''in_ops'' of
                     Some in_ops \<Rightarrow> in_ops
                   | None \<Rightarrow> (op, negate_op))"
  shows "in_impl expect annotations expr op seq_or_selectable negate_op kw
           = boolean_compare expect expr (fst chosen) (Element coerced) (Some (snd chosen))
               (case kw_reverse kw of None \<Rightarrow> False | Some r \<Rightarrow> r)
               (case kw_python_is_types kw of None \<Rightarrow> [NoneType, bool_class] | Some c \<Rightarrow> c)
               (case kw_any_all_expr kw of None \<Rightarrow> False | Some a \<Rightarrow> a)
               (case kw_result_type kw of None \<Rightarrow> None | Some t \<Rightarrow> t)
               (kw_rest kw)"
  using assms
  by (simp add: in_impl_def boolean_compare_call_def given_twice_def no_keywords_def bound_def
      split: prod.splits option.splits)

theorem in_impl_delegates_witness:
  "in_impl literal_coercion
       (\<lambda>n k. if n = ColumnClause ''subquery'' \<and> k = ''in_ops''
               then Some (not_in_op, in_op) else None)
       (ColumnClause ''x'') in_op (Element (ColumnClause ''subquery'')) not_in_op no_keywords
     = Inr (BinaryExpression (ColumnClause ''x'') (ColumnClause ''subquery'') not_in_op
         (Some BOOLEANTYPE) (Some in_op) (Some []))
   \<and> in_impl literal_coercion (\<lambda>n k. None)
       (ColumnClause ''x'') in_op (PyInt 3) not_in_op no_keywords
     = Inr (BinaryExpression (ColumnClause ''x'') (BindParameter (PyInt 3) (Some in_op)) in_op
         (Some BOOLEANTYPE) (Some not_in_op) (Some []))"
  using in_impl_delegates [where expect = literal_coercion
      and seq_or_selectable = "Element (ColumnClause ''subquery'')"
      and expr = "ColumnClause ''x''" and op = in_op and coerced = "ColumnClause ''subquery''"
      and kw = no_keywords and chosen = "(not_in_op, in_op)" and negate_op = not_in_op
      and annotations = "\<lambda>n k. if n = ColumnClause ''subquery'' \<and> k = ''in_ops''
                                then Some (not_in_op, in_op) else None"]
    in_impl_delegates [where expect = literal_coercion and seq_or_selectable = "PyInt 3"
      and expr = "ColumnClause ''x''" and op = in_op
      and coerced = "BindParameter (PyInt 3) (Some in_op)"
      and kw = no_keywords and chosen = "(in_op, not_in_op)" and negate_op = not_in_op
      and annotations = "\<lambda>n k. None"]
  by (simp add: no_keywords_def boolean_compare_def isinstance_def)







end
